theory Spec2Isabelle
  imports Complex_Main "HOL-Library.Word"
begin

section \<open>JavaScript strings and values\<close>

text \<open>
  A JavaScript string is a sequence of UTF-16 code units. The regular expression of
  \<^verbatim>\<open>firstchar\<close> has no \<^verbatim>\<open>u\<close> flag, so it works on code units too.
\<close>

type_synonym jschar = "16 word"
type_synonym jsstring = "jschar list"

definition js :: "string \<Rightarrow> jsstring" where
  \<comment> \<open>an ASCII literal of the source, as code units\<close>
  "js s = map of_char s"

text \<open>
  Numbers only matter here through \<^verbatim>\<open>typeof\<close> and truthiness; a finite double is
  carried as the real it denotes (\<^verbatim>\<open>-0\<close> and \<^verbatim>\<open>0\<close> are both \<open>Finite 0\<close>).
\<close>

datatype jsnumber = NaN | PosInfinity | NegInfinity | Finite real

datatype jsvalue =
    VUndefined
  | VNull
  | VBoolean bool
  | VNumber jsnumber
  | VString jsstring
  | VArray "jsvalue list"
  | VObject "(jsstring \<times> jsvalue) list"
  | VFunction nat

fun ToBoolean :: "jsvalue \<Rightarrow> bool" where
  "ToBoolean VUndefined = False"
| "ToBoolean VNull = False"
| "ToBoolean (VBoolean b) = b"
| "ToBoolean (VNumber n) = (n \<noteq> NaN \<and> n \<noteq> Finite 0)"
| "ToBoolean (VString s) = (s \<noteq> [])"
| "ToBoolean (VArray xs) = True"
| "ToBoolean (VObject ps) = True"
| "ToBoolean (VFunction f) = True"

fun typeof :: "jsvalue \<Rightarrow> jsstring" where
  "typeof VUndefined = js ''undefined''"
| "typeof VNull = js ''object''"
| "typeof (VBoolean b) = js ''boolean''"
| "typeof (VNumber n) = js ''number''"
| "typeof (VString s) = js ''string''"
| "typeof (VArray xs) = js ''object''"
| "typeof (VObject ps) = js ''object''"
| "typeof (VFunction f) = js ''function''"

definition or_else :: "jsvalue \<Rightarrow> jsvalue \<Rightarrow> jsvalue" where
  \<comment> \<open>\<^verbatim>\<open>a || b\<close>\<close>
  "or_else a b = (if ToBoolean a then a else b)"

subsection \<open>String methods used by the source\<close>

fun indexOf_from :: "jsstring \<Rightarrow> jsstring \<Rightarrow> nat \<Rightarrow> int" where
  "indexOf_from [] pat k = (if pat = [] then int k else - 1)"
| "indexOf_from (c # s) pat k =
     (if take (length pat) (c # s) = pat then int k else indexOf_from s pat (Suc k))"

definition indexOf :: "jsstring \<Rightarrow> jsstring \<Rightarrow> int" where
  \<comment> \<open>\<^verbatim>\<open>str.indexOf(pat)\<close>: the first position where \<open>pat\<close> occurs, or \<open>-1\<close>\<close>
  "indexOf str pat = indexOf_from str pat 0"

definition substring :: "jsstring \<Rightarrow> int \<Rightarrow> int \<Rightarrow> jsstring" where
  \<comment> \<open>\<^verbatim>\<open>str.substring(start, fin)\<close>: both ends clamped to the string, swapped if reversed\<close>
  "substring str start fin =
     (let len = int (length str);
          s = min (max start 0) len;
          e = min (max fin 0) len;
          lo = min s e;
          hi = max s e
      in take (nat (hi - lo)) (drop (nat lo) str))"

definition substr :: "jsstring \<Rightarrow> int \<Rightarrow> int \<Rightarrow> jsstring" where
  \<comment> \<open>\<^verbatim>\<open>str.substr(start, len)\<close>\<close>
  "substr str start len =
     (let size = int (length str);
          s = (if start < 0 then max (size + start) 0 else min start size);
          l = min (max len 0) (size - s)
      in take (nat l) (drop (nat s) str))"

text \<open>
  \<^verbatim>\<open>str.replace(searchValue, replaceValue)\<close> with two strings replaces the first
  occurrence only, and expands the patterns \<^verbatim>\<open>$$\<close>, \<^verbatim>\<open>$&\<close>, \<^verbatim>\<open>$`\<close> and
  \<^verbatim>\<open>$'\<close> of the replacement (there is no capture group, so \<^verbatim>\<open>$1\<close> stays as it is).
\<close>

fun GetSubstitution :: "jsstring \<Rightarrow> jsstring \<Rightarrow> jsstring \<Rightarrow> jsstring \<Rightarrow> jsstring" where
  "GetSubstitution matched preceding following (c # d # r) =
     (if c = 0x24 then
        (if d = 0x24 then 0x24 # GetSubstitution matched preceding following r
         else if d = 0x26 then matched @ GetSubstitution matched preceding following r
         else if d = 0x60 then preceding @ GetSubstitution matched preceding following r
         else if d = 0x27 then following @ GetSubstitution matched preceding following r
         else c # GetSubstitution matched preceding following (d # r))
      else c # GetSubstitution matched preceding following (d # r))"
| "GetSubstitution matched preceding following r = r"

definition replace :: "jsstring \<Rightarrow> jsstring \<Rightarrow> jsstring \<Rightarrow> jsstring" where
  "replace str searchValue replaceValue =
     (let pos = indexOf str searchValue in
      if pos < 0 then str
      else
        (let preceding = take (nat pos) str;
             following = drop (nat pos + length searchValue) str
         in preceding @ GetSubstitution searchValue preceding following replaceValue @ following))"

subsection \<open>The regular expression of \<^verbatim>\<open>firstchar\<close>\<close>

definition re_s :: "jschar \<Rightarrow> bool" where
  \<comment> \<open>the class \<^verbatim>\<open>\s\<close>: WhiteSpace and LineTerminator of ECMAScript\<close>
  "re_s c =
     (c = 0x09 \<or> c = 0x0A \<or> c = 0x0B \<or> c = 0x0C \<or> c = 0x0D \<or> c = 0x20 \<or> c = 0xA0
      \<or> c = 0x1680 \<or> (0x2000 \<le> c \<and> c \<le> 0x200A) \<or> c = 0x2028 \<or> c = 0x2029
      \<or> c = 0x202F \<or> c = 0x205F \<or> c = 0x3000 \<or> c = 0xFEFF)"

definition re_dot :: "jschar \<Rightarrow> bool" where
  \<comment> \<open>the class \<^verbatim>\<open>.\<close> without the \<^verbatim>\<open>s\<close> flag: anything but a LineTerminator\<close>
  "re_dot c = (c \<noteq> 0x0A \<and> c \<noteq> 0x0D \<and> c \<noteq> 0x2028 \<and> c \<noteq> 0x2029)"

text \<open>
  \<^verbatim>\<open>/^\s*(.)/.exec(str)\<close>, reduced to its capture group 1; \<open>None\<close> is the
  \<^verbatim>\<open>null\<close> of a failed match. The star is greedy and backtracks: it first takes the
  code unit in front of it when that is in \<^verbatim>\<open>\s\<close>, and only when the rest cannot be
  matched that way does it stop and leave the code unit to the dot.
\<close>

fun regexp_exec :: "jsstring \<Rightarrow> jsstring option" where
  "regexp_exec [] = None"
| "regexp_exec (c # s) =
     (if re_s c then
        (case regexp_exec s of
           Some m \<Rightarrow> Some m
         | None \<Rightarrow> (if re_dot c then Some [c] else None))
      else if re_dot c then Some [c] else None)"

section \<open>Errors\<close>

text \<open>
  An error object: its \<^verbatim>\<open>message\<close> and \<^verbatim>\<open>stack\<close>, the constructor it was made
  by, and whatever other own properties it carries. The object literal
  \<^verbatim>\<open>{ message: ..., stack: ... }\<close> that the source hands to
  \<^verbatim>\<open>normalizeJsonSyntaxError\<close> has the first two fields only.
\<close>

record message_stack =
  message :: jsstring
  stack :: jsstring

record js_error = message_stack +
  constructor_name :: jsstring
  own_properties :: "(jsstring \<times> jsvalue) list"

datatype exn =
    Thrown js_error
  | TypeError_of_null
      \<comment> \<open>the engine's TypeError for reading a property of \<^verbatim>\<open>null\<close> or \<^verbatim>\<open>undefined\<close>\<close>
  | TypeError_of_delete
      \<comment> \<open>the engine's TypeError, in strict mode, for deleting a property that cannot be deleted\<close>

text \<open>
  What \<^verbatim>\<open>JSON.parse\<close> can throw. The parser itself throws a SyntaxError, an error
  object. A reviver can throw anything: an error object again (every Error carries a
  \<^verbatim>\<open>message\<close> and a \<^verbatim>\<open>stack\<close>, both strings), or a value that is no object at all.
  An object thrown that is not an error, one without a string \<^verbatim>\<open>message\<close> and
  \<^verbatim>\<open>stack\<close>, is left out.
\<close>

datatype primitive = PUndefined | PNull | PBoolean bool | PNumber jsnumber | PString jsstring

datatype thrown = Error_object js_error | Primitive primitive

text \<open>
  Modelled from the spec: the object the HTTP error factory \<^verbatim>\<open>createError\<close> returns
  (the factory is required from another package). Sections 6 and 7 of the spec give every
  error an HTTP status, a message and extra fields, the machine-readable kind among them
  (the property \<^verbatim>\<open>type\<close>); the factory is given either a message or the error to wrap.
\<close>

record http_error =
  status :: nat
  origin :: "jsstring + exn" \<comment> \<open>the message given, or the error that was wrapped\<close>
  properties :: "(jsstring \<times> jsvalue) list"

definition createError :: "nat \<Rightarrow> jsstring + exn \<Rightarrow> (jsstring \<times> jsvalue) list \<Rightarrow> http_error" where
  "createError code what props = \<lparr>status = code, origin = what, properties = props\<rparr>"

section \<open>Requests, options and the collaborators\<close>

record request =
  underscore_body :: jsvalue \<comment> \<open>\<^verbatim>\<open>req._body\<close>\<close>
  body :: jsvalue \<comment> \<open>\<^verbatim>\<open>req.body\<close>\<close>
  headers :: "(jsstring \<times> jsstring) list"
  payload :: "8 word list" \<comment> \<open>the bytes of the unread stream\<close>

record content_type =
  media_type :: jsstring
  parameters :: "(jsstring \<times> jsstring) list"

record options =
  limit :: jsvalue
  inflate :: jsvalue
  strict :: jsvalue
  type :: jsvalue
  verify :: jsvalue
  reviver :: jsvalue

text \<open>
  The constructor stores its results on the options object itself; \<open>self\<close> is that
  object afterwards.
\<close>

record self = options +
  parsedLimit :: jsvalue
  parsedInflate :: bool
  parsedStrict :: bool
  parsedType :: jsvalue
  parsedVerify :: jsvalue
  shouldParse :: "request \<Rightarrow> jsvalue"

record reader_options =
  r_encoding :: jsstring
  r_inflate :: bool
  r_limit :: jsvalue
  r_verify :: jsvalue

text \<open>
  What the source takes from the runtime and from the modules it requires. None of it is
  code of this repository, so every theorem below holds whatever these functions are.
  \<^item> \<open>JSON_parse_text text\<close> is \<^verbatim>\<open>JSON.parse\<close> without a reviver: the value the text
    denotes, or the SyntaxError thrown (\<open>Inl\<close>);
  \<^item> \<open>internalize f v\<close> is the walk of the reviver function \<open>f\<close> over the parsed value
    \<open>v\<close>: the value it builds, or whatever the reviver throws (\<open>Inl\<close>);
  \<^item> \<open>stack_trace name message\<close> is the \<^verbatim>\<open>stack\<close> the engine gives a new error;
  \<^item> \<open>call f req\<close> is the value the caller's function \<open>f\<close> returns on \<open>req\<close>;
  \<^item> \<open>receive req opts\<close> is what the streaming reader gets out of the request before it
    calls the parse callback: the decoded text, or the reader's own failure.
\<close>

record env =
  JSON_parse_text :: "jsstring \<Rightarrow> js_error + jsvalue"
  internalize :: "nat \<Rightarrow> jsvalue \<Rightarrow> thrown + jsvalue"
  stack_trace :: "jsstring \<Rightarrow> jsstring \<Rightarrow> jsstring"
  toLowerCase :: "jsstring \<Rightarrow> jsstring"
  toUpperCase :: "jsstring \<Rightarrow> jsstring"
  contentType_parse :: "request \<Rightarrow> exn + content_type"
  typeis :: "request \<Rightarrow> jsvalue \<Rightarrow> jsvalue"
  typeis_hasBody :: "request \<Rightarrow> bool"
  bytes_parse :: "jsvalue \<Rightarrow> jsvalue"
  call :: "nat \<Rightarrow> request \<Rightarrow> jsvalue"
  receive :: "request \<Rightarrow> reader_options \<Rightarrow> http_error + jsstring"

definition JSON_parse :: "env \<Rightarrow> jsstring \<Rightarrow> jsvalue \<Rightarrow> thrown + jsvalue" where
  \<comment> \<open>\<^verbatim>\<open>JSON.parse(text, reviver)\<close> as ECMAScript defines it: the text is parsed, and
      the result is walked by the reviver if that is callable\<close>
  "JSON_parse env text rv =
     (case JSON_parse_text env text of
        Inl e \<Rightarrow> Inl (Error_object e)
      | Inr v \<Rightarrow> (case rv of VFunction f \<Rightarrow> internalize env f v | _ \<Rightarrow> Inr v))"

definition new_Error :: "env \<Rightarrow> jsstring \<Rightarrow> jsstring \<Rightarrow> js_error" where
  \<comment> \<open>\<^verbatim>\<open>new SyntaxError(msg)\<close>, \<^verbatim>\<open>new TypeError(msg)\<close>\<close>
  "new_Error env name msg =
     \<lparr>message = msg, stack = stack_trace env name msg, constructor_name = name,
      own_properties = []\<rparr>"

text \<open>One entry for every call of \<^verbatim>\<open>JSON.parse\<close>, with the arguments it was given.\<close>

datatype parser_call = JSON_parse_call "jsvalue list"

text \<open>One entry for every call of the continuation \<^verbatim>\<open>next\<close>.\<close>

datatype next_call = Next | Next_error http_error

section \<open>The source, function by function\<close>

text \<open>
  Each function of \<^verbatim>\<open>lib/json.js\<close> under its own name. What a function throws is the
  \<open>Inl\<close> of its result. The private options object that the source keeps in a WeakMap
  and fetches as \<^verbatim>\<open>self\<close> is passed as an argument, and so are the collaborators
  (\<open>env\<close>). The calls of \<^verbatim>\<open>debug\<close> only log and are left out; the calls of
  \<^verbatim>\<open>JSON.parse\<close>, of \<^verbatim>\<open>next\<close> and of the streaming reader are recorded in the
  results.
\<close>

subsection \<open>\<^verbatim>\<open>normalizeJsonSyntaxError\<close>\<close>

definition getOwnPropertyNames :: "js_error \<Rightarrow> jsstring list" where
  "getOwnPropertyNames error = js ''stack'' # js ''message'' # map fst (own_properties error)"

definition delete_property :: "js_error \<Rightarrow> jsstring \<Rightarrow> js_error" where
  \<comment> \<open>\<^verbatim>\<open>delete error[key]\<close>, for a key other than \<^verbatim>\<open>stack\<close> and \<^verbatim>\<open>message\<close>\<close>
  "delete_property error key =
     error\<lparr>own_properties := filter (\<lambda>p. fst p \<noteq> key) (own_properties error)\<rparr>"

fun delete_keys :: "jsstring list \<Rightarrow> js_error \<Rightarrow> js_error" where
  \<comment> \<open>the \<^verbatim>\<open>for\<close> loop over \<^verbatim>\<open>keys\<close>\<close>
  "delete_keys [] error = error"
| "delete_keys (key # keys) error =
     delete_keys keys
       (if key \<noteq> js ''stack'' \<and> key \<noteq> js ''message'' then delete_property error key
        else error)"

definition normalizeJsonSyntaxError :: "js_error \<Rightarrow> message_stack \<Rightarrow> js_error" where
  "normalizeJsonSyntaxError error obj =
     (let error1 = delete_keys (getOwnPropertyNames error) error;
          error2 = error1\<lparr>stack := replace (stack obj) (message error1) (message obj)\<rparr>
      in error2\<lparr>message := message obj\<rparr>)"

subsection \<open>\<^verbatim>\<open>firstchar\<close>\<close>

definition firstchar :: "jsstring \<Rightarrow> exn + jsstring" where
  \<comment> \<open>indexing the \<^verbatim>\<open>null\<close> of a failed match throws\<close>
  "firstchar str =
     (case regexp_exec str of None \<Rightarrow> Inl TypeError_of_null | Some m \<Rightarrow> Inr m)"

subsection \<open>\<^verbatim>\<open>createStrictSyntaxError\<close>\<close>

definition createStrictSyntaxError ::
  "env \<Rightarrow> jsstring \<Rightarrow> jsstring \<Rightarrow> js_error \<times> parser_call list" where
  \<comment> \<open>\<^verbatim>\<open>JSON.parse(partial)\<close> has one argument: no reviver runs, so what \<^verbatim>\<open>catch\<close>
      receives is the parser's SyntaxError or the SyntaxError thrown in the \<^verbatim>\<open>try\<close> block\<close>
  "createStrictSyntaxError env str char =
     (let index = indexOf str char;
          partial = substring str 0 index @ js ''#'';
          e = (case JSON_parse_text env partial of
                 Inl e \<Rightarrow> e
               | Inr v \<Rightarrow> new_Error env (js ''SyntaxError'') (js ''strict violation''))
      in (normalizeJsonSyntaxError e
            \<lparr>message = replace (message e) (js ''#'') char, stack = stack e\<rparr>,
          [JSON_parse_call [VString partial]]))"

subsection \<open>\<^verbatim>\<open>parseBody\<close>\<close>

text \<open>
  The \<^verbatim>\<open>catch\<close> block of \<^verbatim>\<open>parseBody\<close> when the value caught is no object. Reading
  \<^verbatim>\<open>e.message\<close> throws at once for \<^verbatim>\<open>undefined\<close> and \<^verbatim>\<open>null\<close>. A boolean or a
  number has no own property and no \<^verbatim>\<open>stack\<close>, so \<^verbatim>\<open>obj.stack.replace\<close> reads a
  property of \<^verbatim>\<open>undefined\<close>. A string has the own properties of its indices and
  \<^verbatim>\<open>length\<close>, none of which can be deleted, and the file is in strict mode. The block
  throws a TypeError in every case and nothing is normalized.
\<close>

fun catch_primitive :: "primitive \<Rightarrow> exn" where
  "catch_primitive PUndefined = TypeError_of_null"
| "catch_primitive PNull = TypeError_of_null"
| "catch_primitive (PBoolean b) = TypeError_of_null"
| "catch_primitive (PNumber n) = TypeError_of_null"
| "catch_primitive (PString s) = TypeError_of_delete"

definition parse_json :: "env \<Rightarrow> 'a self_scheme \<Rightarrow> jsstring \<Rightarrow> (exn + jsvalue) \<times> parser_call list" where
  \<comment> \<open>the \<^verbatim>\<open>try\<close> statement of \<^verbatim>\<open>parseBody\<close>\<close>
  "parse_json env self str =
     ((case JSON_parse env str (reviver self) of
         Inl (Error_object e) \<Rightarrow>
           Inl (Thrown (normalizeJsonSyntaxError e \<lparr>message = message e, stack = stack e\<rparr>))
       | Inl (Primitive p) \<Rightarrow> Inl (catch_primitive p)
       | Inr result \<Rightarrow> Inr result),
      [JSON_parse_call [VString str, reviver self]])"

definition parseBody :: "env \<Rightarrow> 'a self_scheme \<Rightarrow> jsstring \<Rightarrow> (exn + jsvalue) \<times> parser_call list" where
  "parseBody env self str =
     (if length str = 0 then (Inr (VObject []), [])
      else if parsedStrict self then
        (case firstchar str of
           Inl x \<Rightarrow> (Inl x, [])
         | Inr first \<Rightarrow>
             (if first \<noteq> js ''{'' \<and> first \<noteq> js ''['' then
                (let (e, calls) = createStrictSyntaxError env str first
                 in (Inl (Thrown e), calls))
              else parse_json env self str))
      else parse_json env self str)"

subsection \<open>\<^verbatim>\<open>getCharset\<close> and \<^verbatim>\<open>typeChecker\<close>\<close>

definition getCharset :: "env \<Rightarrow> request \<Rightarrow> jsstring option" where
  \<comment> \<open>\<open>None\<close> is the \<^verbatim>\<open>undefined\<close> of the \<^verbatim>\<open>catch\<close> branch\<close>
  "getCharset env req =
     (case contentType_parse env req of
        Inl e \<Rightarrow> None
      | Inr ct \<Rightarrow>
          Some (toLowerCase env
            (case map_of (parameters ct) (js ''charset'') of
               None \<Rightarrow> []
             | Some c \<Rightarrow> (if c \<noteq> [] then c else []))))"

definition typeChecker :: "env \<Rightarrow> jsvalue \<Rightarrow> request \<Rightarrow> jsvalue" where
  "typeChecker env t req = VBoolean (ToBoolean (typeis env req t))"

subsection \<open>\<^verbatim>\<open>checkParse\<close>\<close>

text \<open>
  The result is the value returned together with the calls of \<^verbatim>\<open>next\<close> made on the
  way.
\<close>

definition checkParse :: "env \<Rightarrow> request \<Rightarrow> 'a self_scheme \<Rightarrow> jsstring \<Rightarrow> bool \<times> next_call list" where
  "checkParse env req self charset =
     (if ToBoolean (underscore_body req) then (False, [Next])
      else if \<not> typeis_hasBody env req then (False, [Next])
      else if \<not> ToBoolean (shouldParse self req) then (False, [Next])
      else if substr charset 0 4 \<noteq> js ''utf-'' then
        (False,
         [Next_error
            (createError 415
               (Inl (js ''unsupported charset '' @ [0x22] @ toUpperCase env charset @ [0x22]))
               [(js ''charset'', VString charset),
                (js ''type'', VString (js ''charset.unsupported''))])])
      else (True, []))"

subsection \<open>The streaming reader\<close>

text \<open>
  What one run of the request handler did: the request as it leaves it, the calls of
  \<^verbatim>\<open>next\<close>, the calls of the streaming reader (with the options given) and the calls
  of \<^verbatim>\<open>JSON.parse\<close>.
\<close>

record outcome =
  request_after :: request
  next_calls :: "next_call list"
  reader_calls :: "reader_options list"
  parser_calls :: "parser_call list"

text \<open>
  Modelled from the spec: the streaming body reader \<^verbatim>\<open>Reader\<close>, which the source
  requires from the package \<^verbatim>\<open>xprezzo-raw-body\<close> and which is not among the source
  files. Section 4.3 of the spec gives its contract: it consumes the stream, inflates,
  enforces the limit and the declared length, runs the verify callback, decodes the bytes
  (all of that is \<open>receive\<close> here), hands every failure of its own to the error
  continuation without reaching the parse callback, and otherwise calls the parse callback
  with the decoded text. Section 4.4: the value parsed is attached to the request and the
  success continuation invoked; an exception of the parse callback becomes an error of
  status 400 and kind \<^verbatim>\<open>entity.parse.failed\<close> that carries the raw text (the README's
  section on errors says the same of \<^verbatim>\<open>status\<close>, \<^verbatim>\<open>type\<close> and \<^verbatim>\<open>body\<close>).
  The spec does not say how the reader marks a request as parsed, so the flag
  \<^verbatim>\<open>_body\<close> is left as it is.
\<close>

definition Reader ::
  "env \<Rightarrow> request \<Rightarrow> (jsstring \<Rightarrow> (exn + jsvalue) \<times> parser_call list) \<Rightarrow> reader_options \<Rightarrow> outcome" where
  "Reader env req parse opts =
     (case receive env req opts of
        Inl failure \<Rightarrow>
          \<lparr>request_after = req, next_calls = [Next_error failure], reader_calls = [opts],
           parser_calls = []\<rparr>
      | Inr str \<Rightarrow>
          (case parse str of
             (Inl err, calls) \<Rightarrow>
               \<lparr>request_after = req,
                next_calls =
                  [Next_error
                     (createError 400 (Inr err)
                        [(js ''body'', VString str),
                         (js ''type'', VString (js ''entity.parse.failed''))])],
                reader_calls = [opts], parser_calls = calls\<rparr>
           | (Inr v, calls) \<Rightarrow>
               \<lparr>request_after = req\<lparr>body := v\<rparr>, next_calls = [Next], reader_calls = [opts],
                parser_calls = calls\<rparr>))"

subsection \<open>\<^verbatim>\<open>createReader\<close>\<close>

definition createReader :: "env \<Rightarrow> 'a self_scheme \<Rightarrow> request \<Rightarrow> outcome" where
  \<comment> \<open>the request handler \<^verbatim>\<open>(req, res, next) => { ... }\<close>\<close>
  "createReader env self req0 =
     (let req = req0\<lparr>body := or_else (body req0) (VObject [])\<rparr>;
          charset =
            (case getCharset env req of
               None \<Rightarrow> js ''utf-8''
             | Some c \<Rightarrow> (if c \<noteq> [] then c else js ''utf-8''));
          (go, nexts) = checkParse env req self charset
      in if \<not> go then
           \<lparr>request_after = req, next_calls = nexts, reader_calls = [], parser_calls = []\<rparr>
         else
           (let r = Reader env req (parseBody env self)
                      \<lparr>r_encoding = charset, r_inflate = parsedInflate self,
                       r_limit = parsedLimit self, r_verify = parsedVerify self\<rparr>
            in r\<lparr>next_calls := nexts @ next_calls r\<rparr>))"

subsection \<open>The class \<^verbatim>\<open>JsonParser\<close>\<close>

definition no_options :: options where
  \<comment> \<open>the \<^verbatim>\<open>{}\<close> of \<^verbatim>\<open>options || {}\<close>: every option reads as \<^verbatim>\<open>undefined\<close>\<close>
  "no_options =
     \<lparr>limit = VUndefined, inflate = VUndefined, strict = VUndefined, type = VUndefined,
      verify = VUndefined, reviver = VUndefined\<rparr>"

definition JsonParser_constructor :: "env \<Rightarrow> options option \<Rightarrow> exn + self" where
  \<comment> \<open>the constructor up to \<^verbatim>\<open>prop.set(this, opts)\<close>; \<open>None\<close> is a call without options\<close>
  "JsonParser_constructor env given =
     (let opts = (case given of None \<Rightarrow> no_options | Some g \<Rightarrow> g);
          pLimit =
            (if typeof (limit opts) \<noteq> js ''number''
             then bytes_parse env (or_else (limit opts) (VString (js ''100kb'')))
             else limit opts);
          pInflate = (inflate opts \<noteq> VBoolean False);
          pStrict = (strict opts \<noteq> VBoolean False);
          pType = or_else (type opts) (VString (js ''application/json''));
          pVerify = or_else (verify opts) (VBoolean False)
      in if pVerify \<noteq> VBoolean False \<and> typeof pVerify \<noteq> js ''function'' then
           Inl (Thrown (new_Error env (js ''TypeError'') (js ''option verify must be function'')))
         else
           Inr \<lparr>limit = limit opts, inflate = inflate opts, strict = strict opts,
                type = type opts, verify = verify opts, reviver = reviver opts,
                parsedLimit = pLimit, parsedInflate = pInflate, parsedStrict = pStrict,
                parsedType = pType, parsedVerify = pVerify,
                shouldParse =
                  (if typeof pType \<noteq> js ''function'' then typeChecker env pType
                   else (case pType of VFunction f \<Rightarrow> call env f | _ \<Rightarrow> (\<lambda>req. VUndefined)))\<rparr>)"

definition JsonParser :: "env \<Rightarrow> options option \<Rightarrow> exn + (request \<Rightarrow> outcome)" where
  \<comment> \<open>\<^verbatim>\<open>new JsonParser(options)\<close>: the handler, or the exception of the constructor\<close>
  "JsonParser env given =
     (case JsonParser_constructor env given of
        Inl x \<Rightarrow> Inl x
      | Inr self \<Rightarrow> Inr (createReader env self))"

section \<open>Inputs the properties speak of\<close>

definition JSON_whitespace :: "jschar \<Rightarrow> bool" where
  \<comment> \<open>the whitespace of the JSON grammar: space, tab, line feed, carriage return\<close>
  "JSON_whitespace c = (c = 0x20 \<or> c = 0x09 \<or> c = 0x0A \<or> c = 0x0D)"

definition object_or_array_rooted :: "jsstring \<Rightarrow> bool" where
  \<comment> \<open>a JSON text whose value is an object or an array opens, after whitespace, with
      a brace or a bracket\<close>
  "object_or_array_rooted str =
     (case dropWhile JSON_whitespace str of [] \<Rightarrow> False | c # r \<Rightarrow> c = 0x7B \<or> c = 0x5B)"

definition only_line_terminators :: "jsstring \<Rightarrow> bool" where
  "only_line_terminators str = list_all (\<lambda>c. c = 0x0A \<or> c = 0x0D \<or> c = 0x2028 \<or> c = 0x2029) str"

section \<open>A sample of the collaborators\<close>

text \<open>
  The theorems hold for every \<open>env\<close>. To run the source on concrete requests, here is one
  \<open>env\<close>: small stand-ins that answer like the modules they stand for on the inputs of
  the examples (a parser that knows a handful of JSON texts and reports a text that
  opens with no JSON value the way V8 does, three revivers, ASCII case mapping, a media type split at
  semicolons, a reader that decodes ASCII bytes).
\<close>

function decimal :: "nat \<Rightarrow> jsstring" where
  "decimal n =
     (if n < 10 then [0x30 + of_nat n] else decimal (n div 10) @ [0x30 + of_nat (n mod 10)])"
  by pat_completeness auto
termination
  by (relation "measure id") auto

definition sample_error :: "jsstring \<Rightarrow> jsstring \<Rightarrow> js_error" where
  "sample_error name msg =
     \<lparr>message = msg, stack = name @ js '': '' @ msg @ [0x0A] @ js ''    at <anonymous>'',
      constructor_name = name, own_properties = []\<rparr>"

definition JSON_value_start :: "jschar \<Rightarrow> bool" where
  \<comment> \<open>the code units a JSON value can open with\<close>
  "JSON_value_start c =
     (c = 0x7B \<or> c = 0x5B \<or> c = 0x22 \<or> c = 0x2D \<or> (0x30 \<le> c \<and> c \<le> 0x39)
      \<or> c = 0x74 \<or> c = 0x66 \<or> c = 0x6E)"

definition sample_JSON_parse_text :: "jsstring \<Rightarrow> js_error + jsvalue" where
  \<comment> \<open>a text that opens like a value but is not one of the six known is taken to be cut
      short\<close>
  "sample_JSON_parse_text str =
     (let ws = takeWhile JSON_whitespace str;
          rest = dropWhile JSON_whitespace str
      in case rest of
           [] \<Rightarrow> Inl (sample_error (js ''SyntaxError'') (js ''Unexpected end of JSON input''))
         | c # r \<Rightarrow>
             if \<not> JSON_value_start c then
               Inl (sample_error (js ''SyntaxError'')
                      (js ''Unexpected token '' @ [c] @ js '' in JSON at position ''
                       @ decimal (length ws)))
             else if rest = js ''{}'' then Inr (VObject [])
             else if rest = js ''[]'' then Inr (VArray [])
             else if rest = js ''[1]'' then Inr (VArray [VNumber (Finite 1)])
             else if rest = js ''42'' then Inr (VNumber (Finite 42))
             else if rest = js ''true'' then Inr (VBoolean True)
             else if rest = [0x22, 0x78, 0x22] then Inr (VString (js ''x''))
             else Inl (sample_error (js ''SyntaxError'') (js ''Unexpected end of JSON input'')))"

fun twice :: "jsvalue \<Rightarrow> jsvalue" where
  "twice (VNumber (Finite x)) = VNumber (Finite (2 * x))"
| "twice (VArray xs) = VArray (map twice xs)"
| "twice v = v"

definition sample_internalize :: "nat \<Rightarrow> jsvalue \<Rightarrow> thrown + jsvalue" where
  \<comment> \<open>three revivers: function 1 doubles the numbers (of a number or an array),
      function 2 throws \<^verbatim>\<open>null\<close>, function 3 throws \<^verbatim>\<open>new Error('bad $& token')\<close>;
      any other function returns what it is given\<close>
  "sample_internalize f v =
     (if f = 1 then Inr (twice v)
      else if f = 2 then Inl (Primitive PNull)
      else if f = 3 then Inl (Error_object (sample_error (js ''Error'') (js ''bad $& token'')))
      else Inr v)"

definition sample_JSON_stringify :: "jsvalue \<Rightarrow> jsstring" where
  "sample_JSON_stringify v =
     (if v = VArray [VNumber (Finite 1)] then js ''[1]''
      else
        (case v of
           VObject ps \<Rightarrow> js ''{}''
         | VArray xs \<Rightarrow> js ''[]''
         | VBoolean b \<Rightarrow> (if b then js ''true'' else js ''false'')
         | _ \<Rightarrow> js ''null''))"

definition sample_toLowerCase :: "jsstring \<Rightarrow> jsstring" where
  "sample_toLowerCase s = map (\<lambda>c. if 0x41 \<le> c \<and> c \<le> 0x5A then c + 0x20 else c) s"

definition sample_toUpperCase :: "jsstring \<Rightarrow> jsstring" where
  "sample_toUpperCase s = map (\<lambda>c. if 0x61 \<le> c \<and> c \<le> 0x7A then c - 0x20 else c) s"

fun split_at :: "jschar \<Rightarrow> jsstring \<Rightarrow> jsstring list" where
  "split_at sep [] = [[]]"
| "split_at sep (c # s) =
     (if c = sep then [] # split_at sep s
      else (case split_at sep s of [] \<Rightarrow> [[c]] | x # xs \<Rightarrow> (c # x) # xs))"

definition trim :: "jsstring \<Rightarrow> jsstring" where
  "trim s = rev (dropWhile (\<lambda>c. c = 0x20) (rev (dropWhile (\<lambda>c. c = 0x20) s)))"

definition sample_contentType_parse :: "request \<Rightarrow> exn + content_type" where
  "sample_contentType_parse req =
     (case map_of (headers req) (js ''content-type'') of
        None \<Rightarrow>
          Inl (Thrown (sample_error (js ''TypeError'')
                 (js ''content-type header is missing from object'')))
      | Some h \<Rightarrow>
          (case split_at 0x3B h of
             [] \<Rightarrow> Inl (Thrown (sample_error (js ''TypeError'') (js ''invalid media type'')))
           | t # ps \<Rightarrow>
               Inr \<lparr>media_type = sample_toLowerCase (trim t),
                    parameters =
                      map (\<lambda>p. (sample_toLowerCase (trim (takeWhile (\<lambda>c. c \<noteq> 0x3D) p)),
                                 drop 1 (dropWhile (\<lambda>c. c \<noteq> 0x3D) p))) ps\<rparr>))"

definition sample_typeis :: "request \<Rightarrow> jsvalue \<Rightarrow> jsvalue" where
  "sample_typeis req t =
     (case sample_contentType_parse req of
        Inl x \<Rightarrow> VBoolean False
      | Inr ct \<Rightarrow> (if t = VString (media_type ct) then t else VBoolean False))"

definition sample_hasBody :: "request \<Rightarrow> bool" where
  "sample_hasBody req =
     (map_of (headers req) (js ''transfer-encoding'') \<noteq> None
      \<or> map_of (headers req) (js ''content-length'') \<noteq> None)"

definition sample_bytes_parse :: "jsvalue \<Rightarrow> jsvalue" where
  "sample_bytes_parse v =
     (case v of
        VNumber n \<Rightarrow> VNumber n
      | VString s \<Rightarrow> (if s = js ''100kb'' then VNumber (Finite 102400) else VNull)
      | _ \<Rightarrow> VNull)"

definition sample_env :: env where
  "sample_env =
     \<lparr>JSON_parse_text = sample_JSON_parse_text,
      internalize = sample_internalize,
      stack_trace = (\<lambda>name msg. stack (sample_error name msg)),
      toLowerCase = sample_toLowerCase,
      toUpperCase = sample_toUpperCase,
      contentType_parse = sample_contentType_parse,
      typeis = sample_typeis,
      typeis_hasBody = sample_hasBody,
      bytes_parse = sample_bytes_parse,
      call = (\<lambda>f req. VBoolean (f = 0)),
      receive = (\<lambda>req opts. Inr (map ucast (payload req)))\<rparr>"

definition sample_request :: "string \<Rightarrow> 8 word list \<Rightarrow> request" where
  \<comment> \<open>a fresh chunked request with the given \<^verbatim>\<open>Content-Type\<close> and bytes\<close>
  "sample_request ct bytes =
     \<lparr>underscore_body = VUndefined, body = VUndefined,
      headers = [(js ''content-type'', js ct), (js ''transfer-encoding'', js ''chunked'')],
      payload = bytes\<rparr>"

definition sample_self :: self where
  \<comment> \<open>what the constructor makes of no options at all, see \<open>JsonParser_defaults\<close>\<close>
  "sample_self =
     \<lparr>limit = VUndefined, inflate = VUndefined, strict = VUndefined, type = VUndefined,
      verify = VUndefined, reviver = VUndefined,
      parsedLimit = VNumber (Finite 102400), parsedInflate = True, parsedStrict = True,
      parsedType = VString (js ''application/json''), parsedVerify = VBoolean False,
      shouldParse = typeChecker sample_env (VString (js ''application/json''))\<rparr>"

definition sample_reader_options :: reader_options where
  "sample_reader_options =
     \<lparr>r_encoding = js ''utf-8'', r_inflate = True, r_limit = VNumber (Finite 102400),
      r_verify = VBoolean False\<rparr>"

section \<open>Facts about the string functions\<close>

lemma re_dot_if_not_re_s: "\<not> re_s c \<Longrightarrow> re_dot c"
  by (simp add: re_s_def re_dot_def)

lemma re_s_if_not_re_dot: "\<not> re_dot c \<Longrightarrow> re_s c"
  by (auto simp: re_s_def re_dot_def)

lemma re_s_JSON_whitespace: "JSON_whitespace c \<Longrightarrow> re_s c"
  by (auto simp: re_s_def JSON_whitespace_def)

lemma regexp_exec_first_non_space:
  "\<forall>w\<in>set ws. re_s w \<Longrightarrow> \<not> re_s c \<Longrightarrow> regexp_exec (ws @ c # rest) = Some [c]"
  by (induction ws) (simp_all add: re_dot_if_not_re_s)

lemma regexp_exec_no_dot: "\<forall>c\<in>set str. \<not> re_dot c \<Longrightarrow> regexp_exec str = None"
  by (induction str) (simp_all add: re_s_if_not_re_dot)

lemma firstchar_first_non_space:
  "\<forall>w\<in>set ws. re_s w \<Longrightarrow> \<not> re_s c \<Longrightarrow> firstchar (ws @ c # rest) = Inr [c]"
  by (simp add: firstchar_def regexp_exec_first_non_space)

lemma indexOf_from_first_occurrence:
  "c \<notin> set ws \<Longrightarrow> indexOf_from (ws @ c # rest) [c] k = int (k + length ws)"
  by (induction ws arbitrary: k) auto

lemma indexOf_first_occurrence: "c \<notin> set ws \<Longrightarrow> indexOf (ws @ c # rest) [c] = int (length ws)"
  by (simp add: indexOf_def indexOf_from_first_occurrence)

lemma substring_prefix: "substring (ws @ r) 0 (int (length ws)) = ws"
  by (simp add: substring_def Let_def)

lemma JsonParser_defaults: "JsonParser_constructor sample_env None = Inr sample_self"
  by (simp add: JsonParser_constructor_def sample_self_def sample_env_def no_options_def
      or_else_def sample_bytes_parse_def js_def Let_def)

lemma only_line_terminators_no_dot:
  "only_line_terminators str \<Longrightarrow> \<forall>c\<in>set str. \<not> re_dot c"
  by (auto simp: only_line_terminators_def list_all_iff re_dot_def)

lemma firstchar_rooted:
  assumes "object_or_array_rooted str"
  shows "firstchar str = Inr (js ''{'') \<or> firstchar str = Inr (js ''['')"
proof -
  from assms obtain c r where d: "dropWhile JSON_whitespace str = c # r" and c: "c = 0x7B \<or> c = 0x5B"
    by (auto simp: object_or_array_rooted_def split: list.splits)
  have str: "str = takeWhile JSON_whitespace str @ c # r"
    using d by (metis takeWhile_dropWhile_id)
  have ws: "\<forall>w\<in>set (takeWhile JSON_whitespace str). re_s w"
    by (auto dest: set_takeWhileD re_s_JSON_whitespace)
  from c have "\<not> re_s c"
    by (auto simp: re_s_def)
  with ws have "firstchar (takeWhile JSON_whitespace str @ c # r) = Inr [c]"
    by (rule firstchar_first_non_space)
  with str have "firstchar str = Inr [c]"
    by simp
  with c show ?thesis
    by (auto simp: js_def)
qed

lemma rooted_not_empty: "object_or_array_rooted str \<Longrightarrow> str \<noteq> []"
  by (auto simp: object_or_array_rooted_def)

lemma parseBody_reaches_parse_json:
  assumes "str \<noteq> []"
    and "parsedStrict self \<longrightarrow> firstchar str = Inr (js ''{'') \<or> firstchar str = Inr (js ''['')"
  shows "parseBody env self str = parse_json env self str"
  using assms by (auto simp: parseBody_def)








lemma delete_keys_message [simp]: "message (delete_keys keys error) = message error"
  by (induction keys arbitrary: error) (simp_all add: delete_property_def)

lemma delete_keys_stack [simp]: "stack (delete_keys keys error) = stack error"
  by (induction keys arbitrary: error) (simp_all add: delete_property_def)

lemma delete_keys_constructor_name [simp]:
  "constructor_name (delete_keys keys error) = constructor_name error"
  by (induction keys arbitrary: error) (simp_all add: delete_property_def)

lemma delete_keys_own_properties:
  "own_properties (delete_keys keys error)
     = filter (\<lambda>p. fst p \<notin> set keys \<or> fst p = js ''stack'' \<or> fst p = js ''message'')
         (own_properties error)"
proof (induction keys arbitrary: error)
  case Nil
  then show ?case by simp
next
  case (Cons key keys)
  show ?case
    by (auto simp: Cons.IH delete_property_def intro!: filter_cong)
qed

lemma normalizeJsonSyntaxError_message [simp]:
  "message (normalizeJsonSyntaxError error obj) = message obj"
  by (simp add: normalizeJsonSyntaxError_def Let_def)

lemma normalizeJsonSyntaxError_stack [simp]:
  "stack (normalizeJsonSyntaxError error obj) = replace (stack obj) (message error) (message obj)"
  by (simp add: normalizeJsonSyntaxError_def Let_def)

lemma normalizeJsonSyntaxError_constructor_name [simp]:
  "constructor_name (normalizeJsonSyntaxError error obj) = constructor_name error"
  by (simp add: normalizeJsonSyntaxError_def Let_def)

lemma normalizeJsonSyntaxError_own_properties:
  "own_properties (normalizeJsonSyntaxError error obj)
     = filter (\<lambda>p. fst p = js ''stack'' \<or> fst p = js ''message'') (own_properties error)"
  by (auto simp: normalizeJsonSyntaxError_def Let_def delete_keys_own_properties
      getOwnPropertyNames_def intro!: filter_cong)

lemma normalizeJsonSyntaxError_names:
  "set (getOwnPropertyNames (normalizeJsonSyntaxError error obj)) = {js ''stack'', js ''message''}"
  by (auto simp: getOwnPropertyNames_def normalizeJsonSyntaxError_own_properties)

lemma parse_json_strict_field [simp]: "parse_json env (self\<lparr>strict := x\<rparr>) = parse_json env self"
  by (rule ext) (simp add: parse_json_def)

lemma parse_json_inflate_field [simp]: "parse_json env (self\<lparr>inflate := x\<rparr>) = parse_json env self"
  by (rule ext) (simp add: parse_json_def)

lemma parseBody_strict_field [simp]: "parseBody env (self\<lparr>strict := x\<rparr>) = parseBody env self"
  by (rule ext) (simp add: parseBody_def cong: sum.case_cong if_cong)

lemma parseBody_inflate_field [simp]: "parseBody env (self\<lparr>inflate := x\<rparr>) = parseBody env self"
  by (rule ext) (simp add: parseBody_def cong: sum.case_cong if_cong)

lemma createReader_strict_field [simp]:
  "createReader env (self\<lparr>strict := x\<rparr>) = createReader env self"
  by (rule ext) (simp add: createReader_def checkParse_def Let_def cong: if_cong)

lemma createReader_inflate_field [simp]:
  "createReader env (self\<lparr>inflate := x\<rparr>) = createReader env self"
  by (rule ext) (simp add: createReader_def checkParse_def Let_def cong: if_cong)

lemma JsonParser_constructor_strict_field:
  "strict opts \<noteq> VBoolean False \<Longrightarrow>
   JsonParser_constructor env (Some (opts\<lparr>strict := VBoolean True\<rparr>))
     = map_sum id (\<lambda>self. self\<lparr>strict := VBoolean True\<rparr>) (JsonParser_constructor env (Some opts))"
  by (simp add: JsonParser_constructor_def Let_def)

lemma JsonParser_constructor_inflate_field:
  "inflate opts \<noteq> VBoolean False \<Longrightarrow>
   JsonParser_constructor env (Some (opts\<lparr>inflate := VBoolean True\<rparr>))
     = map_sum id (\<lambda>self. self\<lparr>inflate := VBoolean True\<rparr>) (JsonParser_constructor env (Some opts))"
  by (simp add: JsonParser_constructor_def Let_def)

lemma substr_utf8: "substr (js ''utf-8'') 0 4 = js ''utf-''"
  by (simp add: substr_def js_def)

lemma JSON_parse_not_callable:
  "typeof rv \<noteq> js ''function'' \<Longrightarrow>
   JSON_parse env text rv
     = (case JSON_parse_text env text of Inl e \<Rightarrow> Inl (Error_object e) | Inr v \<Rightarrow> Inr v)"
  by (cases rv) (simp_all add: JSON_parse_def split: sum.splits)

lemmas sample_defs =
  sample_env_def sample_request_def sample_self_def sample_contentType_parse_def
  sample_typeis_def sample_hasBody_def sample_toLowerCase_def sample_toUpperCase_def
  sample_JSON_parse_text_def sample_internalize_def JSON_parse_def sample_error_def trim_def
  typeChecker_def getCharset_def
  JSON_whitespace_def JSON_value_start_def js_def

section \<open>The properties\<close>

text \<open>
  C1, as amended. With strict enabled, a JSON text whose root is an object or an array (it
  opens, after JSON whitespace, with a brace or a bracket) and which the reference decoder
  \<^verbatim>\<open>JSON.parse\<close> decodes with the reviver to \<open>v\<close>, is parsed to \<open>v\<close> by
  \<^verbatim>\<open>parseBody\<close>, with that one call of the decoder. The round trip holds without a
  reviver: when the \<^verbatim>\<open>reviver\<close> option is not a function and the reference decoder takes
  the encoder's output for \<open>v\<close> back to \<open>v\<close>, parsing \<open>encode v\<close> gives \<open>v\<close>. With a
  reviver function, parsing \<open>encode v\<close> gives what the reviver's walk makes of \<open>v\<close>.
\<close>

theorem parseBody_agrees_with_JSON_parse:
  assumes "parsedStrict self"
  shows "(object_or_array_rooted str \<and> JSON_parse env str (reviver self) = Inr v
            \<longrightarrow> parseBody env self str = (Inr v, [JSON_parse_call [VString str, reviver self]]))
       \<and> (typeof (reviver self) \<noteq> js ''function'' \<and> object_or_array_rooted (encode v)
            \<and> JSON_parse_text env (encode v) = Inr v
            \<longrightarrow> parseBody env self (encode v)
                  = (Inr v, [JSON_parse_call [VString (encode v), reviver self]]))
       \<and> (reviver self = VFunction f \<and> object_or_array_rooted (encode v)
            \<and> JSON_parse_text env (encode v) = Inr v \<and> internalize env f v = Inr w
            \<longrightarrow> parseBody env self (encode v)
                  = (Inr w, [JSON_parse_call [VString (encode v), reviver self]]))"
proof -
  have main: "parseBody env self s = (Inr u, [JSON_parse_call [VString s, reviver self]])"
    if "object_or_array_rooted s" and "JSON_parse env s (reviver self) = Inr u" for s u
  proof -
    from that(1) have "parseBody env self s = parse_json env self s"
      by (intro parseBody_reaches_parse_json) (simp_all add: rooted_not_empty firstchar_rooted)
    with that(2) show ?thesis
      by (simp add: parse_json_def)
  qed
  have plain: "JSON_parse env (encode v) (reviver self) = Inr v"
    if "typeof (reviver self) \<noteq> js ''function''" and "JSON_parse_text env (encode v) = Inr v"
    using that by (simp add: JSON_parse_not_callable)
  have walked: "JSON_parse env (encode v) (reviver self) = Inr w"
    if "reviver self = VFunction f" and "JSON_parse_text env (encode v) = Inr v"
      and "internalize env f v = Inr w"
    using that by (simp add: JSON_parse_def)
  show ?thesis
    using main [of str v] main [of "encode v" v] main [of "encode v" w] plain walked
    by blast
qed

theorem parseBody_agrees_with_JSON_parse_witness:
  "parsedStrict sample_self
   \<and> object_or_array_rooted (js '' {}'')
   \<and> JSON_parse sample_env (js '' {}'') (reviver sample_self) = Inr (VObject [])
   \<and> parseBody sample_env sample_self (js '' {}'')
       = (Inr (VObject []), [JSON_parse_call [VString (js '' {}''), VUndefined]])
   \<and> typeof (reviver sample_self) \<noteq> js ''function''
   \<and> object_or_array_rooted (sample_JSON_stringify (VArray [VNumber (Finite 1)]))
   \<and> JSON_parse_text sample_env (sample_JSON_stringify (VArray [VNumber (Finite 1)]))
       = Inr (VArray [VNumber (Finite 1)])
   \<and> fst (parseBody sample_env sample_self (sample_JSON_stringify (VArray [VNumber (Finite 1)])))
       = Inr (VArray [VNumber (Finite 1)])"
proof -
  let ?v = "VArray [VNumber (Finite 1)]"
  have a: "parsedStrict sample_self" by (simp add: sample_self_def)
  have b: "object_or_array_rooted (js '' {}'')"
    by (simp add: object_or_array_rooted_def JSON_whitespace_def js_def)
  have c: "JSON_parse sample_env (js '' {}'') (reviver sample_self) = Inr (VObject [])"
    by (simp add: sample_defs)
  have d: "typeof (reviver sample_self) \<noteq> js ''function''"
    by (simp add: sample_self_def js_def)
  have e: "object_or_array_rooted (sample_JSON_stringify ?v)"
    by (simp add: object_or_array_rooted_def JSON_whitespace_def js_def sample_JSON_stringify_def)
  have f: "JSON_parse_text sample_env (sample_JSON_stringify ?v) = Inr ?v"
    by (simp add: sample_JSON_stringify_def sample_defs)
  have r: "reviver sample_self = VUndefined" by (simp add: sample_self_def)
  note t = parseBody_agrees_with_JSON_parse [OF a, of "js '' {}''" sample_env "VObject []"]
  from t b c have g: "parseBody sample_env sample_self (js '' {}'')
       = (Inr (VObject []), [JSON_parse_call [VString (js '' {}''), VUndefined]])"
    by (simp add: r)
  note u = parseBody_agrees_with_JSON_parse [OF a, of _ sample_env ?v sample_JSON_stringify]
  from u d e f have h: "fst (parseBody sample_env sample_self (sample_JSON_stringify ?v)) = Inr ?v"
    by simp
  from a b c d e f g h show ?thesis
    by blast
qed

text \<open>
  C1 as stated has the round trip for any given reviver. With the reviver that doubles
  every number, the array \<^verbatim>\<open>[1]\<close> is encoded as the text \<^verbatim>\<open>[1]\<close>, which the reference
  decoder alone takes back to \<^verbatim>\<open>[1]\<close>; parsing it under strict gives \<^verbatim>\<open>[2]\<close>.
\<close>

theorem round_trip_changed_by_reviver:
  "parsedStrict (sample_self\<lparr>reviver := VFunction 1\<rparr>)
   \<and> sample_JSON_stringify (VArray [VNumber (Finite 1)]) = js ''[1]''
   \<and> object_or_array_rooted (js ''[1]'')
   \<and> JSON_parse_text sample_env (js ''[1]'') = Inr (VArray [VNumber (Finite 1)])
   \<and> internalize sample_env 1 (VArray [VNumber (Finite 1)]) = Inr (VArray [VNumber (Finite 2)])
   \<and> fst (parseBody sample_env (sample_self\<lparr>reviver := VFunction 1\<rparr>)
            (sample_JSON_stringify (VArray [VNumber (Finite 1)])))
       = Inr (VArray [VNumber (Finite 2)])
   \<and> VArray [VNumber (Finite 2)] \<noteq> VArray [VNumber (Finite 1)]"
proof -
  have a: "sample_JSON_stringify (VArray [VNumber (Finite 1)]) = js ''[1]''"
    by (simp add: sample_JSON_stringify_def)
  have b: "object_or_array_rooted (js ''[1]'')"
    by (simp add: object_or_array_rooted_def JSON_whitespace_def js_def)
  have c: "JSON_parse_text sample_env (js ''[1]'') = Inr (VArray [VNumber (Finite 1)])"
    by (simp add: sample_defs)
  have d: "internalize sample_env 1 (VArray [VNumber (Finite 1)]) = Inr (VArray [VNumber (Finite 2)])"
    by (simp add: sample_env_def sample_internalize_def)
  have f: "firstchar (js ''[1]'') = Inr (js ''['')"
    by (simp add: firstchar_def re_s_def re_dot_def js_def)
  have "JSON_parse sample_env (js ''[1]'') (VFunction 1) = Inr (VArray [VNumber (Finite 2)])"
    using c d by (simp add: JSON_parse_def)
  with f have e: "fst (parseBody sample_env (sample_self\<lparr>reviver := VFunction 1\<rparr>) (js ''[1]''))
       = Inr (VArray [VNumber (Finite 2)])"
    by (simp add: parseBody_def parse_json_def sample_self_def js_def)
  from a b c d e show ?thesis
    by (simp add: sample_self_def)
qed

text \<open>
  C2. Let the first character of the body that is not whitespace be neither a brace nor
  a bracket. Under strict, \<^verbatim>\<open>parseBody\<close> throws the strict-violation error and never
  reaches its own call \<^verbatim>\<open>JSON.parse(body, reviver)\<close>, the decoding of the body: the calls
  of the parser it logs are those of \<^verbatim>\<open>createStrictSyntaxError\<close>, which is the single
  one-argument call on the truncated text and placeholder that builds the error (C7), and
  the outcome is the same whatever the reviver is and whatever a reviver would do. The reader turns the error into one of
  status 400 and type \<^verbatim>\<open>entity.parse.failed\<close>. With strict disabled, a body that
  \<^verbatim>\<open>JSON.parse\<close> decodes to \<open>v\<close> (a scalar, here) is parsed to \<open>v\<close>.
\<close>

theorem strict_rejects_other_roots:
  assumes "str = ws @ c # rest" and "list_all re_s ws" and "\<not> re_s c"
    and "c \<noteq> 0x7B" and "c \<noteq> 0x5B"
    and "receive env req opts = Inr str"
  shows "(parsedStrict self \<longrightarrow>
            parseBody env self str
              = (Inl (Thrown (fst (createStrictSyntaxError env str [c]))),
                 snd (createStrictSyntaxError env str [c]))
            \<and> snd (createStrictSyntaxError env str [c]) = [JSON_parse_call [VString (ws @ js ''#'')]]
            \<and> parseBody (env\<lparr>internalize := walk\<rparr>) (self\<lparr>reviver := r\<rparr>) str
                = parseBody env self str
            \<and> next_calls (Reader env req (parseBody env self) opts)
                = [Next_error
                     \<lparr>status = 400,
                      origin = Inr (Thrown (fst (createStrictSyntaxError env str [c]))),
                      properties = [(js ''body'', VString str),
                                    (js ''type'', VString (js ''entity.parse.failed''))]\<rparr>])
       \<and> (\<not> parsedStrict self \<and> JSON_parse env str (reviver self) = Inr v \<longrightarrow>
            parseBody env self str = (Inr v, [JSON_parse_call [VString str, reviver self]]))"
proof -
  from assms(1-3) have fc: "firstchar str = Inr [c]"
    by (simp add: firstchar_first_non_space list_all_iff)
  from assms(1) have ne: "str \<noteq> []"
    by simp
  from assms(1-3) have "c \<notin> set ws"
    by (auto simp: list_all_iff)
  with assms(1) have "substring str 0 (indexOf str [c]) = ws"
    by (simp add: indexOf_first_occurrence substring_prefix)
  then have calls: "snd (createStrictSyntaxError env str [c]) = [JSON_parse_call [VString (ws @ js ''#'')]]"
    by (simp add: createStrictSyntaxError_def Let_def)
  have strict: "parseBody e s str
              = (Inl (Thrown (fst (createStrictSyntaxError e str [c]))),
                 snd (createStrictSyntaxError e str [c]))"
    if "parsedStrict s" for s :: "'b self_scheme" and e
    using that fc ne assms(4,5)
    by (auto simp: parseBody_def js_def split: prod.splits)
  have "new_Error (env\<lparr>internalize := walk\<rparr>) = new_Error env"
    by (intro ext) (simp add: new_Error_def)
  then have builder: "createStrictSyntaxError (env\<lparr>internalize := walk\<rparr>) str [c]
                   = createStrictSyntaxError env str [c]"
    by (simp add: createStrictSyntaxError_def cong: sum.case_cong)
  have same: "parseBody (env\<lparr>internalize := walk\<rparr>) (self\<lparr>reviver := r\<rparr>) str
                = parseBody env self str"
    if "parsedStrict self"
    using strict [of self env] strict [of "self\<lparr>reviver := r\<rparr>" "env\<lparr>internalize := walk\<rparr>"]
      that builder
    by simp
  have wrapped: "next_calls (Reader env req (parseBody env self) opts)
                = [Next_error
                     \<lparr>status = 400,
                      origin = Inr (Thrown (fst (createStrictSyntaxError env str [c]))),
                      properties = [(js ''body'', VString str),
                                    (js ''type'', VString (js ''entity.parse.failed''))]\<rparr>]"
    if "parsedStrict self"
    using strict [OF that] assms(6) by (simp add: Reader_def createError_def)
  have loose: "parseBody env self str = (Inr v, [JSON_parse_call [VString str, reviver self]])"
    if "\<not> parsedStrict self" and "JSON_parse env str (reviver self) = Inr v"
    using that ne by (simp add: parseBody_def parse_json_def)
  from strict [of self env] calls same wrapped loose show ?thesis
    by simp
qed

theorem strict_rejects_other_roots_witness:
  "js ''42'' = [] @ 0x34 # js ''2'' \<and> list_all re_s [] \<and> \<not> re_s 0x34
   \<and> (0x34 :: jschar) \<noteq> 0x7B \<and> (0x34 :: jschar) \<noteq> 0x5B
   \<and> receive sample_env (sample_request ''application/json'' [0x34, 0x32]) sample_reader_options
        = Inr (js ''42'')
   \<and> parsedStrict sample_self
   \<and> parseBody sample_env sample_self (js ''42'')
        = (Inl (Thrown (fst (createStrictSyntaxError sample_env (js ''42'') [0x34]))),
           [JSON_parse_call [VString (js ''#'')]])
   \<and> message (fst (createStrictSyntaxError sample_env (js ''42'') [0x34]))
        = js ''Unexpected token 4 in JSON at position 0''
   \<and> parseBody (sample_env\<lparr>internalize := (\<lambda>f v. Inl (Primitive PNull))\<rparr>)
         (sample_self\<lparr>reviver := VFunction 1\<rparr>) (js ''42'')
        = parseBody sample_env sample_self (js ''42'')
   \<and> \<not> parsedStrict (sample_self\<lparr>parsedStrict := False\<rparr>)
   \<and> JSON_parse sample_env (js ''42'') (reviver (sample_self\<lparr>parsedStrict := False\<rparr>))
        = Inr (VNumber (Finite 42))
   \<and> parseBody sample_env (sample_self\<lparr>parsedStrict := False\<rparr>) (js ''42'')
        = (Inr (VNumber (Finite 42)), [JSON_parse_call [VString (js ''42''), VUndefined]])"
proof -
  let ?req = "sample_request ''application/json'' [0x34, 0x32]"
  let ?loose = "sample_self\<lparr>parsedStrict := False\<rparr>"
  have a: "js ''42'' = [] @ 0x34 # js ''2''" by (simp add: js_def)
  have b: "list_all re_s []" by simp
  have c: "\<not> re_s 0x34" by (simp add: re_s_def)
  have d: "(0x34 :: jschar) \<noteq> 0x7B" by simp
  have e: "(0x34 :: jschar) \<noteq> 0x5B" by simp
  have f: "receive sample_env ?req sample_reader_options = Inr (js ''42'')"
    by (simp add: sample_env_def sample_request_def js_def)
  have g: "parsedStrict sample_self" by (simp add: sample_self_def)
  have h: "\<not> parsedStrict ?loose" by simp
  have i: "JSON_parse sample_env (js ''42'') (reviver ?loose) = Inr (VNumber (Finite 42))"
    by (simp add: sample_defs)
  have r: "reviver ?loose = VUndefined" by (simp add: sample_self_def)
  have m: "message (fst (createStrictSyntaxError sample_env (js ''42'') [0x34]))
        = js ''Unexpected token 4 in JSON at position 0''"
    by (simp add: createStrictSyntaxError_def substring_def indexOf_def replace_def Let_def
        sample_defs)
  note t = strict_rejects_other_roots [OF a b c d e f, of sample_self
      "\<lambda>f v. Inl (Primitive PNull)" "VFunction 1"]
  from t g have p: "parseBody sample_env sample_self (js ''42'')
        = (Inl (Thrown (fst (createStrictSyntaxError sample_env (js ''42'') [0x34]))),
           [JSON_parse_call [VString (js ''#'')]])"
    by (simp add: js_def)
  from t g have q: "parseBody (sample_env\<lparr>internalize := (\<lambda>f v. Inl (Primitive PNull))\<rparr>)
         (sample_self\<lparr>reviver := VFunction 1\<rparr>) (js ''42'')
        = parseBody sample_env sample_self (js ''42'')"
    by blast
  from strict_rejects_other_roots [OF a b c d e f, of ?loose _ _ "VNumber (Finite 42)"] h i r
  have s: "parseBody sample_env ?loose (js ''42'')
        = (Inr (VNumber (Finite 42)), [JSON_parse_call [VString (js ''42''), VUndefined]])"
    by simp
  from a b c d e f g h i m p q s show ?thesis
    by blast
qed

text \<open>
  C3. A request that passes the gate (not parsed yet, with a body, of a matching content
  type and a UTF charset) and whose body decodes to the empty text ends with the empty
  object as its body and a plain \<^verbatim>\<open>next()\<close>, whatever the strict flag is.
  \<^verbatim>\<open>parseBody\<close> answers the empty text with \<^verbatim>\<open>{}\<close> before anything else: the log of
  \<^verbatim>\<open>JSON.parse\<close> calls is empty, and the first-character check cannot have run, since
  on the empty text \<^verbatim>\<open>firstchar\<close> throws.
\<close>

theorem empty_body_gives_empty_object:
  assumes "req = req0\<lparr>body := or_else (body req0) (VObject [])\<rparr>"
    and "charset = (case getCharset env req of None \<Rightarrow> js ''utf-8''
                     | Some c \<Rightarrow> (if c \<noteq> [] then c else js ''utf-8''))"
    and "\<not> ToBoolean (underscore_body req)" and "typeis_hasBody env req"
    and "ToBoolean (shouldParse self req)" and "substr charset 0 4 = js ''utf-''"
    and "opts = \<lparr>r_encoding = charset, r_inflate = parsedInflate self,
                  r_limit = parsedLimit self, r_verify = parsedVerify self\<rparr>"
    and "receive env req opts = Inr []"
  shows "parseBody env (self\<lparr>parsedStrict := b\<rparr>) [] = (Inr (VObject []), [])
       \<and> firstchar [] = Inl TypeError_of_null
       \<and> createReader env self req0
           = \<lparr>request_after = req\<lparr>body := VObject []\<rparr>, next_calls = [Next],
              reader_calls = [opts], parser_calls = []\<rparr>"
proof -
  have p: "parseBody env s [] = (Inr (VObject []), [])" for s :: "'a self_scheme"
    by (simp add: parseBody_def)
  have f: "firstchar [] = Inl TypeError_of_null"
    by (simp add: firstchar_def)
  from assms(3-6) have c: "checkParse env req self charset = (True, [])"
    by (simp add: checkParse_def)
  from assms(8) have "Reader env req (parseBody env self) opts
      = \<lparr>request_after = req\<lparr>body := VObject []\<rparr>, next_calls = [Next],
         reader_calls = [opts], parser_calls = []\<rparr>"
    by (simp add: Reader_def p)
  with c assms(1,2,7) have "createReader env self req0
           = \<lparr>request_after = req\<lparr>body := VObject []\<rparr>, next_calls = [Next],
              reader_calls = [opts], parser_calls = []\<rparr>"
    by (simp add: createReader_def Let_def)
  with p f show ?thesis by simp
qed

theorem empty_body_gives_empty_object_witness:
  "body (sample_request ''application/json'' []) = VUndefined
   \<and> \<not> ToBoolean (underscore_body ((sample_request ''application/json'' [])\<lparr>body := VObject []\<rparr>))
   \<and> typeis_hasBody sample_env ((sample_request ''application/json'' [])\<lparr>body := VObject []\<rparr>)
   \<and> ToBoolean (shouldParse sample_self ((sample_request ''application/json'' [])\<lparr>body := VObject []\<rparr>))
   \<and> substr (js ''utf-8'') 0 4 = js ''utf-''
   \<and> receive sample_env ((sample_request ''application/json'' [])\<lparr>body := VObject []\<rparr>)
         \<lparr>r_encoding = js ''utf-8'', r_inflate = True, r_limit = VNumber (Finite 102400),
          r_verify = VBoolean False\<rparr> = Inr []
   \<and> parseBody sample_env (sample_self\<lparr>parsedStrict := False\<rparr>) [] = (Inr (VObject []), [])
   \<and> parseBody sample_env (sample_self\<lparr>parsedStrict := True\<rparr>) [] = (Inr (VObject []), [])
   \<and> createReader sample_env sample_self (sample_request ''application/json'' [])
       = \<lparr>request_after = (sample_request ''application/json'' [])\<lparr>body := VObject []\<rparr>,
          next_calls = [Next],
          reader_calls = [\<lparr>r_encoding = js ''utf-8'', r_inflate = True,
                           r_limit = VNumber (Finite 102400), r_verify = VBoolean False\<rparr>],
          parser_calls = []\<rparr>"
proof -
  let ?fresh = "sample_request ''application/json'' []"
  let ?req = "?fresh\<lparr>body := VObject []\<rparr>"
  let ?opts = "\<lparr>r_encoding = js ''utf-8'', r_inflate = True, r_limit = VNumber (Finite 102400),
          r_verify = VBoolean False\<rparr>"
  have h1: "?req = ?fresh\<lparr>body := or_else (body ?fresh) (VObject [])\<rparr>"
    by (simp add: sample_request_def or_else_def)
  have h2: "js ''utf-8'' = (case getCharset sample_env ?req of None \<Rightarrow> js ''utf-8''
                     | Some c \<Rightarrow> (if c \<noteq> [] then c else js ''utf-8''))"
    by (simp add: sample_defs)
  have h3: "\<not> ToBoolean (underscore_body ?req)"
    by (simp add: sample_request_def)
  have h4: "typeis_hasBody sample_env ?req"
    by (simp add: sample_defs)
  have h5: "ToBoolean (shouldParse sample_self ?req)"
    by (simp add: sample_defs)
  have h6: "substr (js ''utf-8'') 0 4 = js ''utf-''"
    by (simp add: substr_def js_def)
  have h7: "?opts = \<lparr>r_encoding = js ''utf-8'', r_inflate = parsedInflate sample_self,
                  r_limit = parsedLimit sample_self, r_verify = parsedVerify sample_self\<rparr>"
    by (simp add: sample_self_def)
  have h8: "receive sample_env ?req ?opts = Inr []"
    by (simp add: sample_env_def sample_request_def)
  have h0: "body ?fresh = VUndefined"
    by (simp add: sample_request_def)
  note t = empty_body_gives_empty_object [OF h1 h2 h3 h4 h5 h6 h7 h8]
  from t [of False] t [of True] h0 h3 h4 h5 h6 h8 show ?thesis
    by simp
qed

text \<open>
  C4, as amended. A request that is not parsed yet, has a body and matches the type
  predicate, and whose resolved charset does not start with \<^verbatim>\<open>utf-\<close>, is refused: one
  call of \<^verbatim>\<open>next\<close> with an error of status 415 and type \<^verbatim>\<open>charset.unsupported\<close>
  whose \<^verbatim>\<open>charset\<close> field is the resolved charset, and neither the reader nor
  \<^verbatim>\<open>JSON.parse\<close> is called. The resolved charset is the charset parameter of the
  Content-Type header in lower case (\<^verbatim>\<open>getCharset\<close> lowers it before anything looks at
  it), so the check is blind to case and the field carries the lower-cased charset.
\<close>

theorem unsupported_charset_is_refused:
  assumes "req = req0\<lparr>body := or_else (body req0) (VObject [])\<rparr>"
    and "charset = (case getCharset env req of None \<Rightarrow> js ''utf-8''
                     | Some c \<Rightarrow> (if c \<noteq> [] then c else js ''utf-8''))"
    and "\<not> ToBoolean (underscore_body req0)" and "typeis_hasBody env req"
    and "ToBoolean (shouldParse self req)" and "substr charset 0 4 \<noteq> js ''utf-''"
  shows "createReader env self req0
           = \<lparr>request_after = req,
              next_calls =
                [Next_error
                   \<lparr>status = 415,
                    origin = Inl (js ''unsupported charset '' @ [0x22] @ toUpperCase env charset @ [0x22]),
                    properties = [(js ''charset'', VString charset),
                                  (js ''type'', VString (js ''charset.unsupported''))]\<rparr>],
              reader_calls = [], parser_calls = []\<rparr>
       \<and> (\<exists>ct. contentType_parse env req = Inr ct
                \<and> charset = toLowerCase env (case map_of (parameters ct) (js ''charset'') of
                                                None \<Rightarrow> [] | Some sent \<Rightarrow> sent))"
proof -
  have flag: "underscore_body req = underscore_body req0"
    using assms(1) by simp
  from assms flag have run: "createReader env self req0
           = \<lparr>request_after = req,
              next_calls =
                [Next_error
                   \<lparr>status = 415,
                    origin = Inl (js ''unsupported charset '' @ [0x22] @ toUpperCase env charset @ [0x22]),
                    properties = [(js ''charset'', VString charset),
                                  (js ''type'', VString (js ''charset.unsupported''))]\<rparr>],
              reader_calls = [], parser_calls = []\<rparr>"
    by (simp add: createReader_def checkParse_def createError_def Let_def)
  from assms(6) have "charset \<noteq> js ''utf-8''"
    using substr_utf8 by auto
  with assms(2) obtain c where c: "getCharset env req = Some c" "charset = c"
    by (auto split: option.splits if_splits)
  then obtain ct where ct: "contentType_parse env req = Inr ct"
    and "c = toLowerCase env (case map_of (parameters ct) (js ''charset'') of
                                None \<Rightarrow> [] | Some sent \<Rightarrow> (if sent \<noteq> [] then sent else []))"
    by (auto simp: getCharset_def split: sum.splits)
  moreover have "(case map_of (parameters ct) (js ''charset'') of
                    None \<Rightarrow> [] | Some sent \<Rightarrow> (if sent \<noteq> [] then sent else []))
               = (case map_of (parameters ct) (js ''charset'') of None \<Rightarrow> [] | Some sent \<Rightarrow> sent)"
    by (simp split: option.splits)
  ultimately have "charset = toLowerCase env (case map_of (parameters ct) (js ''charset'') of
                                                None \<Rightarrow> [] | Some sent \<Rightarrow> sent)"
    using c by simp
  with ct run show ?thesis
    by blast
qed

theorem unsupported_charset_is_refused_witness:
  "(sample_request ''application/json; charset=iso-8859-1'' [0x7B, 0x7D])\<lparr>body := VObject []\<rparr>
     = (sample_request ''application/json; charset=iso-8859-1'' [0x7B, 0x7D])
         \<lparr>body := or_else (body (sample_request ''application/json; charset=iso-8859-1'' [0x7B, 0x7D]))
                   (VObject [])\<rparr>
   \<and> getCharset sample_env
        ((sample_request ''application/json; charset=iso-8859-1'' [0x7B, 0x7D])\<lparr>body := VObject []\<rparr>)
       = Some (js ''iso-8859-1'')
   \<and> \<not> ToBoolean (underscore_body (sample_request ''application/json; charset=iso-8859-1'' [0x7B, 0x7D]))
   \<and> typeis_hasBody sample_env
        ((sample_request ''application/json; charset=iso-8859-1'' [0x7B, 0x7D])\<lparr>body := VObject []\<rparr>)
   \<and> ToBoolean (shouldParse sample_self
        ((sample_request ''application/json; charset=iso-8859-1'' [0x7B, 0x7D])\<lparr>body := VObject []\<rparr>))
   \<and> substr (js ''iso-8859-1'') 0 4 \<noteq> js ''utf-''
   \<and> createReader sample_env sample_self
        (sample_request ''application/json; charset=iso-8859-1'' [0x7B, 0x7D])
       = \<lparr>request_after =
            (sample_request ''application/json; charset=iso-8859-1'' [0x7B, 0x7D])\<lparr>body := VObject []\<rparr>,
          next_calls =
            [Next_error
               \<lparr>status = 415,
                origin = Inl (js ''unsupported charset '' @ [0x22] @ js ''ISO-8859-1'' @ [0x22]),
                properties = [(js ''charset'', VString (js ''iso-8859-1'')),
                              (js ''type'', VString (js ''charset.unsupported''))]\<rparr>],
          reader_calls = [], parser_calls = []\<rparr>"
proof -
  let ?fresh = "sample_request ''application/json; charset=iso-8859-1'' [0x7B, 0x7D]"
  let ?req = "?fresh\<lparr>body := VObject []\<rparr>"
  have a: "?req = ?fresh\<lparr>body := or_else (body ?fresh) (VObject [])\<rparr>"
    by (simp add: sample_request_def or_else_def)
  have g: "getCharset sample_env ?req = Some (js ''iso-8859-1'')"
    by (simp add: sample_defs)
  then have b: "js ''iso-8859-1'' = (case getCharset sample_env ?req of None \<Rightarrow> js ''utf-8''
                     | Some c \<Rightarrow> (if c \<noteq> [] then c else js ''utf-8''))"
    by (simp add: js_def)
  have c: "\<not> ToBoolean (underscore_body ?fresh)"
    by (simp add: sample_request_def)
  have d: "typeis_hasBody sample_env ?req"
    by (simp add: sample_defs)
  have e: "ToBoolean (shouldParse sample_self ?req)"
    by (simp add: sample_defs)
  have f: "substr (js ''iso-8859-1'') 0 4 \<noteq> js ''utf-''"
    by (simp add: substr_def js_def)
  have u: "toUpperCase sample_env (js ''iso-8859-1'') = js ''ISO-8859-1''"
    by (simp add: sample_env_def sample_toUpperCase_def js_def)
  from unsupported_charset_is_refused [OF a b c d e f] u
  have "createReader sample_env sample_self ?fresh
       = \<lparr>request_after = ?req,
          next_calls =
            [Next_error
               \<lparr>status = 415,
                origin = Inl (js ''unsupported charset '' @ [0x22] @ js ''ISO-8859-1'' @ [0x22]),
                properties = [(js ''charset'', VString (js ''iso-8859-1'')),
                              (js ''type'', VString (js ''charset.unsupported''))]\<rparr>],
          reader_calls = [], parser_calls = []\<rparr>"
    by simp
  with a g c d e f show ?thesis
    by blast
qed

text \<open>
  C4 as stated has the \<^verbatim>\<open>charset\<close> field equal to the charset as sent, case preserved.
  A request sent with \<^verbatim>\<open>charset=ISO-8859-1\<close> gets the field \<^verbatim>\<open>iso-8859-1\<close> (only
  the message has it in upper case).
\<close>

theorem charset_field_is_lower_cased:
  "contentType_parse sample_env
     (sample_request ''application/json; charset=ISO-8859-1'' [0x7B, 0x7D])
     = Inr \<lparr>media_type = js ''application/json'',
            parameters = [(js ''charset'', js ''ISO-8859-1'')]\<rparr>
   \<and> next_calls (createReader sample_env sample_self
        (sample_request ''application/json; charset=ISO-8859-1'' [0x7B, 0x7D]))
       = [Next_error
            \<lparr>status = 415,
             origin = Inl (js ''unsupported charset '' @ [0x22] @ js ''ISO-8859-1'' @ [0x22]),
             properties = [(js ''charset'', VString (js ''iso-8859-1'')),
                           (js ''type'', VString (js ''charset.unsupported''))]\<rparr>]
   \<and> VString (js ''iso-8859-1'') \<noteq> VString (js ''ISO-8859-1'')"
proof -
  let ?fresh = "sample_request ''application/json; charset=ISO-8859-1'' [0x7B, 0x7D]"
  have a: "contentType_parse sample_env ?fresh
     = Inr \<lparr>media_type = js ''application/json'',
            parameters = [(js ''charset'', js ''ISO-8859-1'')]\<rparr>"
    by (simp add: sample_defs)
  have b: "next_calls (createReader sample_env sample_self ?fresh)
       = [Next_error
            \<lparr>status = 415,
             origin = Inl (js ''unsupported charset '' @ [0x22] @ js ''ISO-8859-1'' @ [0x22]),
             properties = [(js ''charset'', VString (js ''iso-8859-1'')),
                           (js ''type'', VString (js ''charset.unsupported''))]\<rparr>]"
    by (simp add: createReader_def checkParse_def createError_def substr_def or_else_def
        Let_def sample_defs)
  have c: "VString (js ''iso-8859-1'') \<noteq> VString (js ''ISO-8859-1'')"
    by (simp add: js_def)
  from a b c show ?thesis
    by blast
qed




text \<open>
  C6. The claim is what the code sets out to do, and the code misses it where the message
  of the error holds a replacement pattern. In the \<^verbatim>\<open>catch\<close> block of \<^verbatim>\<open>parseBody\<close>
  the normalized message is the message the error already has, so substituting the one for
  the other in the stack should leave the stack as it is; but \<^verbatim>\<open>replace\<close> is given the
  message as its replacement string and expands \<^verbatim>\<open>$&\<close> in it. A reviver that throws
  \<^verbatim>\<open>new Error('bad $& token')\<close> on the body \<^verbatim>\<open>[1]\<close>: the error thrown on has the stack
  \<^verbatim>\<open>Error: bad bad $& token token\<close> where it had \<^verbatim>\<open>Error: bad $& token\<close>. And a reviver
  that throws \<^verbatim>\<open>null\<close>: the \<^verbatim>\<open>catch\<close> block itself throws a TypeError, and no
  normalized error.
\<close>

theorem stack_garbled_by_replacement_pattern:
  "JSON_parse sample_env (js ''[1]'') (VFunction 3)
     = Inl (Error_object (sample_error (js ''Error'') (js ''bad $& token'')))
   \<and> stack (sample_error (js ''Error'') (js ''bad $& token''))
       = js ''Error: bad $& token'' @ [0x0A] @ js ''    at <anonymous>''
   \<and> fst (parseBody sample_env (sample_self\<lparr>reviver := VFunction 3\<rparr>) (js ''[1]''))
       = Inl (Thrown
           ((sample_error (js ''Error'') (js ''bad $& token''))
              \<lparr>stack := js ''Error: bad bad $& token token'' @ [0x0A] @ js ''    at <anonymous>''\<rparr>))
   \<and> js ''Error: bad bad $& token token'' @ [0x0A] @ js ''    at <anonymous>''
       \<noteq> stack (sample_error (js ''Error'') (js ''bad $& token''))
   \<and> JSON_parse sample_env (js ''[1]'') (VFunction 2) = Inl (Primitive PNull)
   \<and> fst (parseBody sample_env (sample_self\<lparr>reviver := VFunction 2\<rparr>) (js ''[1]''))
       = Inl TypeError_of_null"
proof -
  let ?e = "sample_error (js ''Error'') (js ''bad $& token'')"
  let ?garbled = "js ''Error: bad bad $& token token'' @ [0x0A] @ js ''    at <anonymous>''"
  have f: "firstchar (js ''[1]'') = Inr (js ''['')"
    by (simp add: firstchar_def re_s_def re_dot_def js_def)
  have a: "JSON_parse sample_env (js ''[1]'') (VFunction 3) = Inl (Error_object ?e)"
    by (simp add: sample_defs)
  have b: "stack ?e = js ''Error: bad $& token'' @ [0x0A] @ js ''    at <anonymous>''"
    by (simp add: sample_error_def js_def)
  have n: "normalizeJsonSyntaxError ?e \<lparr>message = message ?e, stack = stack ?e\<rparr>
             = ?e\<lparr>stack := ?garbled\<rparr>"
    by (simp add: normalizeJsonSyntaxError_def getOwnPropertyNames_def sample_error_def
        replace_def indexOf_def js_def Let_def)
  from f a n have c: "fst (parseBody sample_env (sample_self\<lparr>reviver := VFunction 3\<rparr>) (js ''[1]''))
       = Inl (Thrown (?e\<lparr>stack := ?garbled\<rparr>))"
    by (simp add: parseBody_def parse_json_def sample_self_def js_def)
  have d: "?garbled \<noteq> stack ?e"
    by (simp add: sample_error_def js_def)
  have g: "JSON_parse sample_env (js ''[1]'') (VFunction 2) = Inl (Primitive PNull)"
    by (simp add: sample_defs)
  with f have h: "fst (parseBody sample_env (sample_self\<lparr>reviver := VFunction 2\<rparr>) (js ''[1]''))
       = Inl TypeError_of_null"
    by (simp add: parseBody_def parse_json_def sample_self_def js_def)
  from a b c d g h show ?thesis
    by blast
qed



text \<open>
  C8, as amended. The constructor throws the TypeError
  \<^verbatim>\<open>option verify must be function\<close> exactly when \<^verbatim>\<open>verify\<close> is truthy and not a
  function; it throws at construction, so no handler is returned. When \<^verbatim>\<open>verify\<close> is
  absent, falsy (\<^verbatim>\<open>false\<close>, \<^verbatim>\<open>0\<close>, \<^verbatim>\<open>null\<close>, the empty string, NaN) or a function,
  construction succeeds, and a falsy \<^verbatim>\<open>verify\<close> is stored as \<^verbatim>\<open>false\<close>.
\<close>

theorem verify_checked_at_construction:
  assumes "v = (case given of None \<Rightarrow> VUndefined | Some g \<Rightarrow> verify g)"
  shows "(ToBoolean v \<and> typeof v \<noteq> js ''function'' \<longrightarrow>
            JsonParser env given
              = Inl (Thrown (new_Error env (js ''TypeError'') (js ''option verify must be function''))))
       \<and> (\<not> ToBoolean v \<or> typeof v = js ''function'' \<longrightarrow>
            (\<exists>self. JsonParser_constructor env given = Inr self
                    \<and> JsonParser env given = Inr (createReader env self)
                    \<and> parsedVerify self = or_else v (VBoolean False)))"
proof -
  have pv: "or_else v (VBoolean False) \<noteq> VBoolean False \<longleftrightarrow> ToBoolean v"
    by (cases v) (auto simp: or_else_def)
  have same: "ToBoolean v \<Longrightarrow> or_else v (VBoolean False) = v"
    by (simp add: or_else_def)
  have falsy: "\<not> ToBoolean v \<Longrightarrow> or_else v (VBoolean False) = VBoolean False"
    by (simp add: or_else_def)
  have thrown: "JsonParser env given
              = Inl (Thrown (new_Error env (js ''TypeError'') (js ''option verify must be function'')))"
    if "ToBoolean v" and "typeof v \<noteq> js ''function''"
    using that assms same pv
    by (cases given) (simp_all add: JsonParser_def JsonParser_constructor_def Let_def no_options_def)
  have made: "\<exists>self. JsonParser_constructor env given = Inr self
                    \<and> JsonParser env given = Inr (createReader env self)
                    \<and> parsedVerify self = or_else v (VBoolean False)"
    if "\<not> ToBoolean v \<or> typeof v = js ''function''"
  proof (cases "ToBoolean v")
    case True
    with that have "typeof v = js ''function''" by simp
    with True assms same show ?thesis
      by (cases given) (simp_all add: JsonParser_def JsonParser_constructor_def Let_def no_options_def)
  next
    case False
    with assms falsy show ?thesis
      by (cases given) (simp_all add: JsonParser_def JsonParser_constructor_def Let_def no_options_def)
  qed
  from thrown made show ?thesis
    by blast
qed

theorem verify_checked_at_construction_witness:
  "VString (js ''yes'') = (case Some (no_options\<lparr>verify := VString (js ''yes'')\<rparr>) of
                               None \<Rightarrow> VUndefined | Some g \<Rightarrow> verify g)
   \<and> ToBoolean (VString (js ''yes'')) \<and> typeof (VString (js ''yes'')) \<noteq> js ''function''
   \<and> JsonParser sample_env (Some (no_options\<lparr>verify := VString (js ''yes'')\<rparr>))
       = Inl (Thrown (new_Error sample_env (js ''TypeError'') (js ''option verify must be function'')))
   \<and> VFunction 0 = (case Some (no_options\<lparr>verify := VFunction 0\<rparr>) of
                       None \<Rightarrow> VUndefined | Some g \<Rightarrow> verify g)
   \<and> typeof (VFunction 0) = js ''function''
   \<and> JsonParser_constructor sample_env (Some (no_options\<lparr>verify := VFunction 0\<rparr>))
       = Inr (sample_self\<lparr>verify := VFunction 0, parsedVerify := VFunction 0\<rparr>)
   \<and> JsonParser sample_env (Some (no_options\<lparr>verify := VFunction 0\<rparr>))
       = Inr (createReader sample_env (sample_self\<lparr>verify := VFunction 0, parsedVerify := VFunction 0\<rparr>))"
proof -
  let ?bad = "Some (no_options\<lparr>verify := VString (js ''yes'')\<rparr>)"
  let ?good = "Some (no_options\<lparr>verify := VFunction 0\<rparr>)"
  have a: "VString (js ''yes'') = (case ?bad of None \<Rightarrow> VUndefined | Some g \<Rightarrow> verify g)"
    by simp
  have b: "ToBoolean (VString (js ''yes''))" by (simp add: js_def)
  have c: "typeof (VString (js ''yes'')) \<noteq> js ''function''" by (simp add: js_def)
  have d: "VFunction 0 = (case ?good of None \<Rightarrow> VUndefined | Some g \<Rightarrow> verify g)"
    by simp
  have e: "typeof (VFunction 0) = js ''function''" by simp
  have f: "JsonParser_constructor sample_env ?good
       = Inr (sample_self\<lparr>verify := VFunction 0, parsedVerify := VFunction 0\<rparr>)"
    by (simp add: JsonParser_constructor_def sample_self_def sample_env_def no_options_def
      or_else_def sample_bytes_parse_def js_def Let_def)
  from verify_checked_at_construction [OF a, of sample_env] b c
  have g: "JsonParser sample_env ?bad
       = Inl (Thrown (new_Error sample_env (js ''TypeError'') (js ''option verify must be function'')))"
    by blast
  from verify_checked_at_construction [OF d, of sample_env] e f
  have h: "JsonParser sample_env ?good
       = Inr (createReader sample_env (sample_self\<lparr>verify := VFunction 0, parsedVerify := VFunction 0\<rparr>))"
    by auto
  from a b c d e f g h show ?thesis
    by blast
qed

text \<open>
  C8 as stated has construction throw for every \<^verbatim>\<open>verify\<close> that is provided and not
  callable. The number \<^verbatim>\<open>0\<close> is provided and not callable, and construction succeeds.
\<close>

theorem falsy_verify_is_accepted:
  "verify (no_options\<lparr>verify := VNumber (Finite 0)\<rparr>) = VNumber (Finite 0)
   \<and> VNumber (Finite 0) \<noteq> VUndefined
   \<and> typeof (VNumber (Finite 0)) \<noteq> js ''function''
   \<and> JsonParser_constructor sample_env (Some (no_options\<lparr>verify := VNumber (Finite 0)\<rparr>))
       = Inr (sample_self\<lparr>verify := VNumber (Finite 0)\<rparr>)
   \<and> JsonParser sample_env (Some (no_options\<lparr>verify := VNumber (Finite 0)\<rparr>))
       = Inr (createReader sample_env (sample_self\<lparr>verify := VNumber (Finite 0)\<rparr>))"
proof -
  have "JsonParser_constructor sample_env (Some (no_options\<lparr>verify := VNumber (Finite 0)\<rparr>))
       = Inr (sample_self\<lparr>verify := VNumber (Finite 0)\<rparr>)"
    by (simp add: JsonParser_constructor_def sample_self_def sample_env_def no_options_def
      or_else_def sample_bytes_parse_def js_def Let_def)
  then show ?thesis
    by (simp add: JsonParser_def js_def)
qed

text \<open>
  C9. With strict enabled, a non-empty body made only of line terminators (a single newline,
  say) is whitespace throughout, yet the regular expression of \<^verbatim>\<open>firstchar\<close> does not
  match it: the dot takes no line terminator. The match is \<^verbatim>\<open>null\<close>, indexing it throws
  a TypeError, and that TypeError is what \<^verbatim>\<open>parseBody\<close> throws: neither a strict
  violation nor a normalized syntax error, and \<^verbatim>\<open>JSON.parse\<close> is never called. So
  \<^verbatim>\<open>firstchar\<close> is not total on non-empty strings.
\<close>

theorem firstchar_partial_on_line_terminators:
  assumes "str \<noteq> []" and "only_line_terminators str" and "parsedStrict self"
  shows "list_all re_s str \<and> regexp_exec str = None \<and> firstchar str = Inl TypeError_of_null
         \<and> parseBody env self str = (Inl TypeError_of_null, [])"
proof -
  from assms(2) have nd: "\<forall>c\<in>set str. \<not> re_dot c"
    by (rule only_line_terminators_no_dot)
  then have ws: "list_all re_s str"
    by (simp add: list_all_iff re_s_if_not_re_dot)
  from nd have none: "regexp_exec str = None"
    by (rule regexp_exec_no_dot)
  then have fc: "firstchar str = Inl TypeError_of_null"
    by (simp add: firstchar_def)
  from assms(1,3) fc have "parseBody env self str = (Inl TypeError_of_null, [])"
    by (simp add: parseBody_def)
  with ws none fc show ?thesis by simp
qed

theorem firstchar_partial_on_line_terminators_witness:
  "[0x0A] \<noteq> ([] :: jsstring) \<and> only_line_terminators [0x0A] \<and> parsedStrict sample_self
   \<and> regexp_exec [0x0A] = None \<and> firstchar [0x0A] = Inl TypeError_of_null
   \<and> parseBody sample_env sample_self [0x0A] = (Inl TypeError_of_null, [])"
proof -
  have a: "[0x0A] \<noteq> ([] :: jsstring)" by simp
  have b: "only_line_terminators [0x0A]" by (simp add: only_line_terminators_def)
  have c: "parsedStrict sample_self" by (simp add: sample_self_def)
  from firstchar_partial_on_line_terminators [OF a b c, of sample_env] a b c
  show ?thesis by (simp del: regexp_exec.simps)
qed

text \<open>
  C10. \<^verbatim>\<open>parsedStrict\<close> and \<^verbatim>\<open>parsedInflate\<close> are false only when the option is the
  boolean \<^verbatim>\<open>false\<close> itself. For any other value of \<^verbatim>\<open>strict\<close> (\<^verbatim>\<open>0\<close>, \<^verbatim>\<open>null\<close> and
  the empty string included) constructing the parser gives the very result that
  \<^verbatim>\<open>strict: true\<close> gives, the same handler or the same exception; likewise for
  \<^verbatim>\<open>inflate\<close>.
\<close>

theorem strict_and_inflate_disabled_by_false_only:
  "(JsonParser_constructor env (Some opts) = Inr self \<longrightarrow>
      parsedStrict self = (strict opts \<noteq> VBoolean False)
      \<and> parsedInflate self = (inflate opts \<noteq> VBoolean False))
   \<and> (strict opts \<noteq> VBoolean False \<longrightarrow>
        JsonParser env (Some opts) = JsonParser env (Some (opts\<lparr>strict := VBoolean True\<rparr>)))
   \<and> (inflate opts \<noteq> VBoolean False \<longrightarrow>
        JsonParser env (Some opts) = JsonParser env (Some (opts\<lparr>inflate := VBoolean True\<rparr>)))"
proof -
  have flags: "parsedStrict self = (strict opts \<noteq> VBoolean False)
      \<and> parsedInflate self = (inflate opts \<noteq> VBoolean False)"
    if "JsonParser_constructor env (Some opts) = Inr self"
    using that by (auto simp: JsonParser_constructor_def Let_def split: if_splits)
  have s: "JsonParser env (Some opts) = JsonParser env (Some (opts\<lparr>strict := VBoolean True\<rparr>))"
    if "strict opts \<noteq> VBoolean False"
    using JsonParser_constructor_strict_field [OF that, of env]
    by (cases "JsonParser_constructor env (Some opts)") (simp_all add: JsonParser_def)
  have i: "JsonParser env (Some opts) = JsonParser env (Some (opts\<lparr>inflate := VBoolean True\<rparr>))"
    if "inflate opts \<noteq> VBoolean False"
    using JsonParser_constructor_inflate_field [OF that, of env]
    by (cases "JsonParser_constructor env (Some opts)") (simp_all add: JsonParser_def)
  from flags s i show ?thesis
    by blast
qed

theorem strict_and_inflate_disabled_by_false_only_witness:
  "strict (no_options\<lparr>strict := VNumber (Finite 0), inflate := VNull\<rparr>) \<noteq> VBoolean False
   \<and> inflate (no_options\<lparr>strict := VNumber (Finite 0), inflate := VNull\<rparr>) \<noteq> VBoolean False
   \<and> JsonParser_constructor sample_env
         (Some (no_options\<lparr>strict := VNumber (Finite 0), inflate := VNull\<rparr>))
       = Inr (sample_self\<lparr>strict := VNumber (Finite 0), inflate := VNull\<rparr>)
   \<and> parsedStrict (sample_self\<lparr>strict := VNumber (Finite 0), inflate := VNull\<rparr>)
   \<and> parsedInflate (sample_self\<lparr>strict := VNumber (Finite 0), inflate := VNull\<rparr>)
   \<and> JsonParser sample_env (Some (no_options\<lparr>strict := VNumber (Finite 0), inflate := VNull\<rparr>))
       = JsonParser sample_env
           (Some (no_options\<lparr>strict := VNumber (Finite 0), inflate := VNull,
                              strict := VBoolean True\<rparr>))
   \<and> JsonParser sample_env (Some (no_options\<lparr>strict := VNumber (Finite 0), inflate := VNull\<rparr>))
       = JsonParser sample_env
           (Some (no_options\<lparr>strict := VNumber (Finite 0), inflate := VNull,
                              inflate := VBoolean True\<rparr>))"
proof -
  let ?o = "no_options\<lparr>strict := VNumber (Finite 0), inflate := VNull\<rparr>"
  let ?s = "sample_self\<lparr>strict := VNumber (Finite 0), inflate := VNull\<rparr>"
  have a: "strict ?o \<noteq> VBoolean False" by simp
  have b: "inflate ?o \<noteq> VBoolean False" by simp
  have c: "JsonParser_constructor sample_env (Some ?o) = Inr ?s"
    by (simp add: JsonParser_constructor_def sample_self_def sample_env_def no_options_def
      or_else_def sample_bytes_parse_def js_def Let_def)
  note t = strict_and_inflate_disabled_by_false_only [of sample_env ?o ?s]
  from t c a b have d: "parsedStrict ?s \<and> parsedInflate ?s"
    by blast
  from t a have e: "JsonParser sample_env (Some ?o)
      = JsonParser sample_env (Some (?o\<lparr>strict := VBoolean True\<rparr>))"
    by blast
  from t b have f: "JsonParser sample_env (Some ?o)
      = JsonParser sample_env (Some (?o\<lparr>inflate := VBoolean True\<rparr>))"
    by blast
  from a b c d e f show ?thesis
    by blast
qed

end
